theory Spec2Isabelle
  imports Complex_Main "HOL-Library.Word" "HOL-Library.AList"
begin

unbundle bit_operations_syntax

section \<open>Python values the two services share\<close>

text \<open>
  The two source files are \<^verbatim>\<open>rtmp_streaming_service.py\<close> (RTMP egress through an
  ffmpeg pipe, microphone capture through PyAudio) and \<^verbatim>\<open>streaming_service.py\<close>
  (WebSocket egress through an \<^verbatim>\<open>asyncio.Queue\<close>). Every method is embedded as a
  function from the object's state (a record of its attributes) and the outcome of each
  call into a collaborator (the operating system, PyAudio, the inference engine) to the
  new state and either the exception that leaves the method or its return value.
\<close>

type_synonym bytes = "8 word list"

text \<open>
  The exception classes the source names or that its collaborators raise. The class
  hierarchy is Python's: \<^verbatim>\<open>BrokenPipeError\<close> and \<^verbatim>\<open>FileNotFoundError\<close> are
  subclasses of \<^verbatim>\<open>OSError\<close>; every class but \<^verbatim>\<open>KeyboardInterrupt\<close> is a
  subclass of \<^verbatim>\<open>Exception\<close>.
\<close>

datatype exn_class =
    Queue_Full | Queue_Empty
  | Asyncio_QueueFull | Asyncio_QueueEmpty
  | BrokenPipeError | FileNotFoundError | OSError
  | TimeoutExpired
  | ValueError | RuntimeError
  | KeyboardInterrupt

datatype py_exn = PyExn (exn_cls: exn_class) (exn_msg: string)

fun is_OSError :: "exn_class \<Rightarrow> bool" where
  "is_OSError BrokenPipeError = True"
| "is_OSError FileNotFoundError = True"
| "is_OSError OSError = True"
| "is_OSError _ = False"

fun is_Exception :: "exn_class \<Rightarrow> bool" where
  "is_Exception KeyboardInterrupt = False"
| "is_Exception _ = True"

text \<open>
  A call into a collaborator either returns or raises; which of the two is an input of
  the model (\<open>None\<close>: the call returns).
\<close>

type_synonym outcome = "py_exn option"

subsection \<open>The standard library's bounded queues\<close>

text \<open>
  \<^verbatim>\<open>queue.Queue(maxsize)\<close> and \<^verbatim>\<open>asyncio.Queue(maxsize)\<close>: a FIFO of at most
  \<open>maxsize\<close> items when \<open>maxsize > 0\<close>, unbounded otherwise. \<^verbatim>\<open>put_nowait\<close> raises
  the library's Full exception on a full queue and appends otherwise; \<^verbatim>\<open>get_nowait\<close>
  raises its Empty exception on an empty queue and removes the oldest item otherwise.
  The two libraries differ in the exception classes only.
\<close>

record 'a py_queue =
  maxsize :: int
  items :: "'a list"

definition new_queue :: "int \<Rightarrow> 'a py_queue" where
  "new_queue n = \<lparr>maxsize = n, items = []\<rparr>"

definition full :: "'a py_queue \<Rightarrow> bool" where
  "full q = (if maxsize q \<le> 0 then False else maxsize q \<le> int (length (items q)))"

definition put_nowait_raising :: "exn_class \<Rightarrow> 'a py_queue \<Rightarrow> 'a \<Rightarrow> py_exn + 'a py_queue" where
  "put_nowait_raising c q x =
     (if full q then Inl (PyExn c [])
      else Inr (q\<lparr>items := items q @ [x]\<rparr>))"

definition get_nowait_raising :: "exn_class \<Rightarrow> 'a py_queue \<Rightarrow> py_exn + ('a \<times> 'a py_queue)" where
  "get_nowait_raising c q =
     (case items q of
        [] \<Rightarrow> Inl (PyExn c [])
      | x # xs \<Rightarrow> Inr (x, q\<lparr>items := xs\<rparr>))"

definition queue_put_nowait :: "'a py_queue \<Rightarrow> 'a \<Rightarrow> py_exn + 'a py_queue" where
  "queue_put_nowait = put_nowait_raising Queue_Full"

definition queue_get_nowait :: "'a py_queue \<Rightarrow> py_exn + ('a \<times> 'a py_queue)" where
  "queue_get_nowait = get_nowait_raising Queue_Empty"

definition asyncio_put_nowait :: "'a py_queue \<Rightarrow> 'a \<Rightarrow> py_exn + 'a py_queue" where
  "asyncio_put_nowait = put_nowait_raising Asyncio_QueueFull"

definition asyncio_get_nowait :: "'a py_queue \<Rightarrow> py_exn + ('a \<times> 'a py_queue)" where
  "asyncio_get_nowait = get_nowait_raising Asyncio_QueueEmpty"

subsection \<open>The image library\<close>

text \<open>
  Frames are the inference engine's image buffers. The operations of OpenCV, NumPy and
  base64 that the writers apply to a frame are parameters of the model: \<open>shape2\<close> is
  \<^verbatim>\<open>frame.shape[:2]\<close> (height, width), \<open>resize\<close> takes the target (width, height) as
  \<^verbatim>\<open>cv2.resize\<close> does, and \<open>imencode_jpg_b64\<close> is JPEG encoding at quality 80 followed
  by base64 and UTF-8 decoding.
\<close>

record 'f cv2 =
  shape2 :: "'f \<Rightarrow> int \<times> int"
  cvtColor_BGR2RGB :: "'f \<Rightarrow> 'f"
  cvtColor_RGB2BGR :: "'f \<Rightarrow> 'f"
  resize :: "'f \<Rightarrow> int \<times> int \<Rightarrow> 'f"
  tobytes :: "'f \<Rightarrow> bytes"
  imencode_jpg_b64 :: "'f \<Rightarrow> string"

section \<open>rtmp\_streaming\_service.py\<close>

subsection \<open>RTMPStreamWriter\<close>

text \<open>
  The ffmpeg subprocess behind \<^verbatim>\<open>subprocess.Popen\<close>: the destination and raw-video
  geometry of its command line, the byte strings written to its standard input so far,
  and whether that pipe has been closed.
\<close>

record popen =
  popen_url :: string
  popen_size :: "int \<times> int"
  popen_rate :: int
  stdin_written :: "bytes list"
  stdin_closed :: bool

record RTMPStreamWriter =
  rtmp_url :: string
  width :: int
  height :: int
  fps :: int
  process :: "popen option"
  rtmp_is_active :: bool

definition RTMPStreamWriter_init :: "string \<Rightarrow> int \<Rightarrow> int \<Rightarrow> int \<Rightarrow> RTMPStreamWriter" where
  "RTMPStreamWriter_init url w h r =
     \<lparr>rtmp_url = url, width = w, height = h, fps = r, process = None, rtmp_is_active = False\<rparr>"

text \<open>\<^verbatim>\<open>RTMPStreamWriter(rtmp_url)\<close>: the defaults are 512 by 512 at 25 frames a second.\<close>

definition RTMPStreamWriter_default :: "string \<Rightarrow> RTMPStreamWriter" where
  "RTMPStreamWriter_default url = RTMPStreamWriter_init url 512 512 25"

text \<open>
  \<^verbatim>\<open>start\<close>: \<open>spawn\<close> is the outcome of \<^verbatim>\<open>subprocess.Popen\<close>. When it raises,
  neither attribute has been assigned.
\<close>

definition RTMPStreamWriter_start :: "RTMPStreamWriter \<Rightarrow> outcome \<Rightarrow> RTMPStreamWriter \<times> (py_exn + unit)" where
  "RTMPStreamWriter_start w spawn =
     (case spawn of
        Some e \<Rightarrow> (w, Inl e)
      | None \<Rightarrow>
          (w\<lparr>process := Some \<lparr>popen_url = rtmp_url w, popen_size = (width w, height w),
                               popen_rate = fps w, stdin_written = [], stdin_closed = False\<rparr>,
             rtmp_is_active := True\<rparr>, Inr ()))"

text \<open>
  \<^verbatim>\<open>__call__\<close>: \<open>wr\<close> and \<open>fl\<close> are the outcomes of \<^verbatim>\<open>stdin.write\<close> and
  \<^verbatim>\<open>stdin.flush\<close>. The handler \<^verbatim>\<open>except (BrokenPipeError, OSError)\<close> catches the
  subclasses of \<^verbatim>\<open>OSError\<close> and clears the active flag; any other exception leaves
  the method.
\<close>

definition rtmp_except_disconnect :: "RTMPStreamWriter \<Rightarrow> py_exn \<Rightarrow> RTMPStreamWriter \<times> (py_exn + unit)" where
  "rtmp_except_disconnect w e =
     (if is_OSError (exn_cls e) then (w\<lparr>rtmp_is_active := False\<rparr>, Inr ()) else (w, Inl e))"

definition RTMPStreamWriter_call ::
  "'f cv2 \<Rightarrow> RTMPStreamWriter \<Rightarrow> 'f \<Rightarrow> string \<Rightarrow> outcome \<Rightarrow> outcome \<Rightarrow> RTMPStreamWriter \<times> (py_exn + unit)" where
  "RTMPStreamWriter_call cv w frame_rgb fmt wr fl =
     (if \<not> rtmp_is_active w \<or> process w = None then (w, Inr ())
      else
        (case process w of
           None \<Rightarrow> (w, Inr ())
         | Some p \<Rightarrow>
             let f1 = (if fmt \<noteq> ''rgb'' then cvtColor_BGR2RGB cv frame_rgb else frame_rgb);
                 f2 = (if shape2 cv f1 \<noteq> (height w, width w)
                       then resize cv f1 (width w, height w) else f1)
             in (case wr of
                   Some e \<Rightarrow> rtmp_except_disconnect w e
                 | None \<Rightarrow>
                     let w1 = w\<lparr>process := Some (p\<lparr>stdin_written := stdin_written p @ [tobytes cv f2]\<rparr>)\<rparr>
                     in (case fl of
                           Some e \<Rightarrow> rtmp_except_disconnect w1 e
                         | None \<Rightarrow> (w1, Inr ())))))"

text \<open>
  \<^verbatim>\<open>close\<close>: \<open>cl\<close> and \<open>wt\<close> are the outcomes of \<^verbatim>\<open>stdin.close\<close> and
  \<^verbatim>\<open>wait(timeout=5)\<close>. Only \<^verbatim>\<open>subprocess.TimeoutExpired\<close> is handled (the process
  is killed); after the \<^verbatim>\<open>try\<close> statement the handle is dropped. Any other
  exception leaves the method with the handle still in place.
\<close>

definition rtmp_except_timeout :: "RTMPStreamWriter \<Rightarrow> py_exn \<Rightarrow> RTMPStreamWriter \<times> (py_exn + unit)" where
  "rtmp_except_timeout w e =
     (if exn_cls e = TimeoutExpired then (w\<lparr>process := None\<rparr>, Inr ()) else (w, Inl e))"

definition RTMPStreamWriter_close :: "RTMPStreamWriter \<Rightarrow> outcome \<Rightarrow> outcome \<Rightarrow> RTMPStreamWriter \<times> (py_exn + unit)" where
  "RTMPStreamWriter_close w cl wt =
     (let w0 = w\<lparr>rtmp_is_active := False\<rparr>
      in (case process w0 of
            None \<Rightarrow> (w0, Inr ())
          | Some p \<Rightarrow>
              (case cl of
                 Some e \<Rightarrow> rtmp_except_timeout w0 e
               | None \<Rightarrow>
                   let w1 = w0\<lparr>process := Some (p\<lparr>stdin_closed := True\<rparr>)\<rparr>
                   in (case wt of
                         Some e \<Rightarrow> rtmp_except_timeout w1 e
                       | None \<Rightarrow> (w1\<lparr>process := None\<rparr>, Inr ())))))"

text \<open>A run of writes, each with the outcomes of its two pipe operations.\<close>

fun RTMPStreamWriter_calls ::
  "'f cv2 \<Rightarrow> RTMPStreamWriter \<Rightarrow> ('f \<times> string \<times> outcome \<times> outcome) list \<Rightarrow> RTMPStreamWriter \<times> (py_exn + unit)" where
  "RTMPStreamWriter_calls cv w [] = (w, Inr ())"
| "RTMPStreamWriter_calls cv w ((f, fmt, wr, fl) # cs) =
     (case RTMPStreamWriter_call cv w f fmt wr fl of
        (w', Inl e) \<Rightarrow> (w', Inl e)
      | (w', Inr _) \<Rightarrow> RTMPStreamWriter_calls cv w' cs)"

subsection \<open>AudioCapture\<close>

text \<open>
  An audio chunk is the \<^verbatim>\<open>float32\<close> array \<^verbatim>\<open>np.frombuffer\<close> makes of the driver's
  buffer: one 32-bit pattern for every four bytes, little-endian. NumPy raises
  \<^verbatim>\<open>ValueError\<close> when the buffer's size is not a multiple of four.
\<close>

type_synonym chunk = "32 word list"

fun float32_patterns :: "bytes \<Rightarrow> chunk" where
  "float32_patterns (a # b # c # d # rest) =
     (ucast a OR push_bit 8 (ucast b) OR push_bit 16 (ucast c) OR push_bit 24 (ucast d))
       # float32_patterns rest"
| "float32_patterns _ = []"

definition np_frombuffer :: "bytes \<Rightarrow> py_exn + chunk" where
  "np_frombuffer in_data =
     (if length in_data mod 4 \<noteq> 0
      then Inl (PyExn ValueError ''buffer size must be a multiple of element size'')
      else Inr (float32_patterns in_data))"

record pa_stream =
  pa_rate :: int
  pa_frames_per_buffer :: int
  pa_running :: bool

datatype pa_flag = paContinue | paComplete | paAbort

record AudioCapture =
  sample_rate :: int
  chunk_size :: int
  audio_terminated :: bool
  stream :: "pa_stream option"
  audio_queue :: "chunk py_queue"
  capture_is_active :: bool

definition AudioCapture_init :: "int \<Rightarrow> int \<Rightarrow> AudioCapture" where
  "AudioCapture_init rate csize =
     \<lparr>sample_rate = rate, chunk_size = csize, audio_terminated = False, stream = None,
      audio_queue = new_queue 100, capture_is_active = False\<rparr>"

text \<open>
  \<^verbatim>\<open>AudioCapture()\<close>: 16000 samples a second in chunks of 1024; \<open>pa\<close> is the outcome
  of \<^verbatim>\<open>pyaudio.PyAudio()\<close>.
\<close>

definition AudioCapture_default :: "outcome \<Rightarrow> py_exn + AudioCapture" where
  "AudioCapture_default pa =
     (case pa of Some e \<Rightarrow> Inl e | None \<Rightarrow> Inr (AudioCapture_init 16000 1024))"

text \<open>
  \<^verbatim>\<open>start_capture\<close>: \<open>op\<close> and \<open>st\<close> are the outcomes of \<^verbatim>\<open>audio.open\<close> and
  \<^verbatim>\<open>stream.start_stream\<close>. The handler \<^verbatim>\<open>except Exception\<close> prints the error and
  the method returns.
\<close>

definition capture_except_Exception :: "AudioCapture \<Rightarrow> py_exn \<Rightarrow> AudioCapture \<times> (py_exn + unit)" where
  "capture_except_Exception ac e =
     (if is_Exception (exn_cls e) then (ac, Inr ()) else (ac, Inl e))"

definition AudioCapture_start_capture :: "AudioCapture \<Rightarrow> outcome \<Rightarrow> outcome \<Rightarrow> AudioCapture \<times> (py_exn + unit)" where
  "AudioCapture_start_capture ac op st =
     (case op of
        Some e \<Rightarrow> capture_except_Exception ac e
      | None \<Rightarrow>
          let s = \<lparr>pa_rate = sample_rate ac, pa_frames_per_buffer = chunk_size ac, pa_running = False\<rparr>;
              ac1 = ac\<lparr>stream := Some s\<rparr>
          in (case st of
                Some e \<Rightarrow> capture_except_Exception ac1 e
              | None \<Rightarrow>
                  (ac1\<lparr>stream := Some (s\<lparr>pa_running := True\<rparr>), capture_is_active := True\<rparr>, Inr ())))"

text \<open>
  \<^verbatim>\<open>_audio_callback\<close>: the driver's buffer is converted and offered to the queue; on
  \<^verbatim>\<open>queue.Full\<close> the oldest chunk is taken out and the new one put in, and
  \<^verbatim>\<open>queue.Empty\<close> in that handler is ignored. The method returns
  \<^verbatim>\<open>(None, pyaudio.paContinue)\<close>.
\<close>

definition AudioCapture_audio_callback ::
  "AudioCapture \<Rightarrow> bytes \<Rightarrow> AudioCapture \<times> (py_exn + (bytes option \<times> pa_flag))" where
  "AudioCapture_audio_callback ac in_data =
     (if capture_is_active ac then
        (case np_frombuffer in_data of
           Inl e \<Rightarrow> (ac, Inl e)
         | Inr audio_data \<Rightarrow>
             (case queue_put_nowait (audio_queue ac) audio_data of
                Inr q \<Rightarrow> (ac\<lparr>audio_queue := q\<rparr>, Inr (None, paContinue))
              | Inl e \<Rightarrow>
                  if exn_cls e = Queue_Full then
                    (case queue_get_nowait (audio_queue ac) of
                       Inl e1 \<Rightarrow>
                         if exn_cls e1 = Queue_Empty then (ac, Inr (None, paContinue))
                         else (ac, Inl e1)
                     | Inr (_, q1) \<Rightarrow>
                         (case queue_put_nowait q1 audio_data of
                            Inr q2 \<Rightarrow> (ac\<lparr>audio_queue := q2\<rparr>, Inr (None, paContinue))
                          | Inl e2 \<Rightarrow>
                              if exn_cls e2 = Queue_Empty
                              then (ac\<lparr>audio_queue := q1\<rparr>, Inr (None, paContinue))
                              else (ac\<lparr>audio_queue := q1\<rparr>, Inl e2)))
                  else (ac, Inl e)))
      else (ac, Inr (None, paContinue)))"

text \<open>The driver calling back once for each buffer of a list, until a call raises.\<close>

fun audio_callbacks :: "AudioCapture \<Rightarrow> bytes list \<Rightarrow> AudioCapture \<times> (py_exn + unit)" where
  "audio_callbacks ac [] = (ac, Inr ())"
| "audio_callbacks ac (b # bs) =
     (case AudioCapture_audio_callback ac b of
        (ac', Inl e) \<Rightarrow> (ac', Inl e)
      | (ac', Inr _) \<Rightarrow> audio_callbacks ac' bs)"

text \<open>
  \<^verbatim>\<open>get_audio_chunk\<close>: the oldest chunk, or \<^verbatim>\<open>None\<close> when the queue stays empty
  for the whole timeout (no producer runs during the call).
\<close>

definition AudioCapture_get_audio_chunk :: "AudioCapture \<Rightarrow> AudioCapture \<times> (py_exn + chunk option)" where
  "AudioCapture_get_audio_chunk ac =
     (case queue_get_nowait (audio_queue ac) of
        Inr (x, q) \<Rightarrow> (ac\<lparr>audio_queue := q\<rparr>, Inr (Some x))
      | Inl e \<Rightarrow> if exn_cls e = Queue_Empty then (ac, Inr None) else (ac, Inl e))"

text \<open>The consumer draining the queue: chunks are taken until \<^verbatim>\<open>None\<close> comes back.\<close>

function drain_chunks :: "AudioCapture \<Rightarrow> chunk list" where
  "drain_chunks ac =
     (case AudioCapture_get_audio_chunk ac of
        (ac', Inr (Some x)) \<Rightarrow> x # drain_chunks ac'
      | _ \<Rightarrow> [])"
  by pat_completeness auto
termination
  by (relation "measure (\<lambda>ac. length (items (audio_queue ac)))")
     (auto simp: AudioCapture_get_audio_chunk_def queue_get_nowait_def get_nowait_raising_def
           split: list.splits if_splits)

declare drain_chunks.simps [simp del]

text \<open>
  \<^verbatim>\<open>stop_capture\<close>: \<open>sp\<close>, \<open>cl\<close> and \<open>tm\<close> are the outcomes of
  \<^verbatim>\<open>stream.stop_stream\<close>, \<^verbatim>\<open>stream.close\<close> and \<^verbatim>\<open>audio.terminate\<close>; nothing is
  handled.
\<close>

definition AudioCapture_terminate :: "AudioCapture \<Rightarrow> outcome \<Rightarrow> AudioCapture \<times> (py_exn + unit)" where
  "AudioCapture_terminate ac tm =
     (case tm of Some e \<Rightarrow> (ac, Inl e) | None \<Rightarrow> (ac\<lparr>audio_terminated := True\<rparr>, Inr ()))"

definition AudioCapture_stop_capture ::
  "AudioCapture \<Rightarrow> outcome \<Rightarrow> outcome \<Rightarrow> outcome \<Rightarrow> AudioCapture \<times> (py_exn + unit)" where
  "AudioCapture_stop_capture ac sp cl tm =
     (let ac0 = ac\<lparr>capture_is_active := False\<rparr>
      in (case stream ac0 of
            None \<Rightarrow> AudioCapture_terminate ac0 tm
          | Some s \<Rightarrow>
              (case sp of
                 Some e \<Rightarrow> (ac0, Inl e)
               | None \<Rightarrow>
                   let ac1 = ac0\<lparr>stream := Some (s\<lparr>pa_running := False\<rparr>)\<rparr>
                   in (case cl of
                         Some e \<Rightarrow> (ac1, Inl e)
                       | None \<Rightarrow> AudioCapture_terminate (ac1\<lparr>stream := None\<rparr>) tm))))"

subsection \<open>The inference engine and the worker thread\<close>

text \<open>
  \<^verbatim>\<open>StreamSDK\<close> is the external inference engine. The services construct it, call
  \<^verbatim>\<open>setup\<close> with the source path, a dummy output path and the keyword arguments, and
  call \<^verbatim>\<open>close\<close>; each call's outcome is an input. The assignment
  \<^verbatim>\<open>sdk.writer = rtmp_writer\<close> makes the engine share the writer object that the
  stream dictionary holds, so the model keeps that one copy in the dictionary.
\<close>

record setup_kwargs =
  online_mode :: bool
  sampling_timesteps :: int
  crop_scale :: real
  max_size :: int

definition service_setup_kwargs :: setup_kwargs where
  "service_setup_kwargs =
     \<lparr>online_mode = True, sampling_timesteps = 25, crop_scale = 23 / 10, max_size = 512\<rparr>"

record StreamSDK =
  sdk_cfg_pkl :: string
  sdk_data_root :: string
  sdk_setup_args :: "(string \<times> string \<times> setup_kwargs) option"
  sdk_closed :: bool

definition StreamSDK_init :: "string \<Rightarrow> string \<Rightarrow> outcome \<Rightarrow> py_exn + StreamSDK" where
  "StreamSDK_init cfg droot oc =
     (case oc of
        Some e \<Rightarrow> Inl e
      | None \<Rightarrow> Inr \<lparr>sdk_cfg_pkl = cfg, sdk_data_root = droot, sdk_setup_args = None, sdk_closed = False\<rparr>)"

definition StreamSDK_setup :: "StreamSDK \<Rightarrow> string \<Rightarrow> string \<Rightarrow> setup_kwargs \<Rightarrow> outcome \<Rightarrow> py_exn + StreamSDK" where
  "StreamSDK_setup k src out kw oc =
     (case oc of
        Some e \<Rightarrow> Inl e
      | None \<Rightarrow> Inr (k\<lparr>sdk_setup_args := Some (src, out, kw)\<rparr>))"

definition StreamSDK_close :: "StreamSDK \<Rightarrow> outcome \<Rightarrow> StreamSDK \<times> (py_exn + unit)" where
  "StreamSDK_close k oc =
     (case oc of
        Some e \<Rightarrow> (k, Inl e)
      | None \<Rightarrow> (k\<lparr>sdk_closed := True\<rparr>, Inr ()))"

text \<open>
  The worker is a \<^verbatim>\<open>threading.Thread\<close> running \<^verbatim>\<open>audio_processor\<close>. The model
  keeps whether it is still running. \<^verbatim>\<open>join(timeout=5)\<close> returns when the thread has
  ended or when five seconds have passed, whichever comes first, and raises nothing in
  either case; \<open>ends\<close> says whether the thread ends within the timeout.
\<close>

record thread =
  thread_alive :: bool

definition Thread_join :: "thread \<Rightarrow> bool \<Rightarrow> thread" where
  "Thread_join t ends = t\<lparr>thread_alive := thread_alive t \<and> \<not> ends\<rparr>"

subsection \<open>TalkingHeadRTMPService\<close>

text \<open>
  An entry of \<^verbatim>\<open>active_streams\<close> is a dictionary with the keys \<^verbatim>\<open>sdk\<close>,
  \<^verbatim>\<open>rtmp_writer\<close>, \<^verbatim>\<open>audio_capture\<close>, \<^verbatim>\<open>active\<close> and, once processing has
  started, \<^verbatim>\<open>audio_thread\<close>.
\<close>

record stream_dict =
  sdk :: StreamSDK
  rtmp_writer :: RTMPStreamWriter
  audio_capture :: AudioCapture
  active :: bool
  audio_thread :: "thread option"

text \<open>
  The service object together with the stream dictionaries it has created.
  \<^verbatim>\<open>active_streams\<close> is a Python dictionary from stream id to a reference to a stream
  dictionary: an association list in insertion order, whose values are addresses in
  \<open>stream_dicts\<close>. Deleting a key removes the reference and leaves the object where it
  is (the worker thread's closure still refers to it).
\<close>

record TalkingHeadRTMPService =
  cfg_pkl :: string
  data_root :: string
  active_streams :: "(string \<times> nat) list"
  stream_dicts :: "nat \<Rightarrow> stream_dict"
  allocated :: nat

text \<open>The outcomes of the collaborator calls of each service method.\<close>

record create_env =
  env_sdk_init :: outcome
  env_popen :: outcome
  env_pyaudio :: outcome
  env_sdk_setup :: outcome

record capture_env =
  env_open :: outcome
  env_start_stream :: outcome

record stop_env =
  env_stop_stream :: outcome
  env_stream_close :: outcome
  env_terminate :: outcome
  env_join_ends :: bool
  env_sdk_close :: outcome
  env_stdin_close :: outcome
  env_wait :: outcome

definition TalkingHeadRTMPService_create_stream ::
  "TalkingHeadRTMPService \<Rightarrow> string \<Rightarrow> string \<Rightarrow> string \<Rightarrow> create_env
     \<Rightarrow> TalkingHeadRTMPService \<times> (py_exn + (StreamSDK \<times> AudioCapture))" where
  "TalkingHeadRTMPService_create_stream S stream_id src url env =
     (case StreamSDK_init (cfg_pkl S) (data_root S) (env_sdk_init env) of
        Inl e \<Rightarrow> (S, Inl e)
      | Inr k0 \<Rightarrow>
          (case RTMPStreamWriter_start (RTMPStreamWriter_default url) (env_popen env) of
             (_, Inl e) \<Rightarrow> (S, Inl e)
           | (w, Inr _) \<Rightarrow>
               (case AudioCapture_default (env_pyaudio env) of
                  Inl e \<Rightarrow> (S, Inl e)
                | Inr ac \<Rightarrow>
                    (case StreamSDK_setup k0 src ''/dev/null'' service_setup_kwargs (env_sdk_setup env) of
                       Inl e \<Rightarrow> (S, Inl e)
                     | Inr k \<Rightarrow>
                         let r = allocated S;
                             d = \<lparr>sdk = k, rtmp_writer = w, audio_capture = ac, active = True,
                                  audio_thread = None\<rparr>
                         in (S\<lparr>active_streams := AList.update stream_id r (active_streams S),
                               stream_dicts := (stream_dicts S)(r := d),
                               allocated := Suc r\<rparr>,
                             Inr (k, ac))))))"

definition TalkingHeadRTMPService_start_stream_processing ::
  "TalkingHeadRTMPService \<Rightarrow> string \<Rightarrow> capture_env \<Rightarrow> TalkingHeadRTMPService \<times> (py_exn + unit)" where
  "TalkingHeadRTMPService_start_stream_processing S stream_id env =
     (case map_of (active_streams S) stream_id of
        None \<Rightarrow> (S, Inr ())
      | Some r \<Rightarrow>
          let d = stream_dicts S r
          in (case AudioCapture_start_capture (audio_capture d) (env_open env) (env_start_stream env) of
                (ac, Inl e) \<Rightarrow> (S\<lparr>stream_dicts := (stream_dicts S)(r := d\<lparr>audio_capture := ac\<rparr>)\<rparr>, Inl e)
              | (ac, Inr _) \<Rightarrow>
                  (S\<lparr>stream_dicts := (stream_dicts S)
                        (r := d\<lparr>audio_capture := ac, audio_thread := Some \<lparr>thread_alive = True\<rparr>\<rparr>)\<rparr>,
                   Inr ())))"

text \<open>
  \<^verbatim>\<open>stop_stream\<close>, the statements between the lookup and the \<^verbatim>\<open>del\<close>: they act on
  the stream dictionary, and an exception leaves it as far as the teardown came.
\<close>

definition stop_stream_teardown :: "stream_dict \<Rightarrow> stop_env \<Rightarrow> stream_dict \<times> (py_exn + unit)" where
  "stop_stream_teardown d env =
     (let d0 = d\<lparr>active := False\<rparr>
      in (case AudioCapture_stop_capture (audio_capture d0)
                 (env_stop_stream env) (env_stream_close env) (env_terminate env) of
            (ac, Inl e) \<Rightarrow> (d0\<lparr>audio_capture := ac\<rparr>, Inl e)
          | (ac, Inr _) \<Rightarrow>
              let d1 = d0\<lparr>audio_capture := ac\<rparr>;
                  d2 = (case audio_thread d1 of
                          None \<Rightarrow> d1
                        | Some t \<Rightarrow> d1\<lparr>audio_thread := Some (Thread_join t (env_join_ends env))\<rparr>)
              in (case StreamSDK_close (sdk d2) (env_sdk_close env) of
                    (k, Inl e) \<Rightarrow> (d2\<lparr>sdk := k\<rparr>, Inl e)
                  | (k, Inr _) \<Rightarrow>
                      let d3 = d2\<lparr>sdk := k\<rparr>
                      in (case RTMPStreamWriter_close (rtmp_writer d3) (env_stdin_close env) (env_wait env) of
                            (w, res) \<Rightarrow> (d3\<lparr>rtmp_writer := w\<rparr>, res)))))"

definition TalkingHeadRTMPService_stop_stream ::
  "TalkingHeadRTMPService \<Rightarrow> string \<Rightarrow> stop_env \<Rightarrow> TalkingHeadRTMPService \<times> (py_exn + unit)" where
  "TalkingHeadRTMPService_stop_stream S stream_id env =
     (case map_of (active_streams S) stream_id of
        None \<Rightarrow> (S, Inr ())
      | Some r \<Rightarrow>
          (case stop_stream_teardown (stream_dicts S r) env of
             (d, Inl e) \<Rightarrow> (S\<lparr>stream_dicts := (stream_dicts S)(r := d)\<rparr>, Inl e)
           | (d, Inr _) \<Rightarrow>
               (S\<lparr>stream_dicts := (stream_dicts S)(r := d),
                  active_streams := AList.delete stream_id (active_streams S)\<rparr>, Inr ())))"

subsection \<open>The routes\<close>

text \<open>
  What leaves a route: an \<^verbatim>\<open>HTTPException\<close> with its status code and detail, or an
  exception that \<^verbatim>\<open>except Exception\<close> does not catch.
\<close>

datatype route_exn = HTTPException int string | Unhandled py_exn

record StreamRequest =
  source_path :: string
  request_rtmp_url :: string

record start_response =
  message :: string
  response_rtmp_url :: string

definition route_except_Exception :: "py_exn \<Rightarrow> route_exn" where
  "route_except_Exception e =
     (if is_Exception (exn_cls e) then HTTPException 500 (exn_msg e) else Unhandled e)"

definition start_stream ::
  "TalkingHeadRTMPService \<Rightarrow> string \<Rightarrow> StreamRequest \<Rightarrow> create_env \<Rightarrow> capture_env
     \<Rightarrow> TalkingHeadRTMPService \<times> (route_exn + start_response)" where
  "start_stream S stream_id request cenv denv =
     (if map_of (active_streams S) stream_id \<noteq> None
      then (S, Inl (HTTPException 400 ''Stream already exists''))
      else
        (case TalkingHeadRTMPService_create_stream S stream_id (source_path request)
                (request_rtmp_url request) cenv of
           (S1, Inl e) \<Rightarrow> (S1, Inl (route_except_Exception e))
         | (S1, Inr _) \<Rightarrow>
             (case TalkingHeadRTMPService_start_stream_processing S1 stream_id denv of
                (S2, Inl e) \<Rightarrow> (S2, Inl (route_except_Exception e))
              | (S2, Inr _) \<Rightarrow>
                  (S2, Inr \<lparr>message = ''Stream '' @ stream_id @ '' started successfully'',
                            response_rtmp_url = request_rtmp_url request\<rparr>))))"

definition stop_stream ::
  "TalkingHeadRTMPService \<Rightarrow> string \<Rightarrow> stop_env \<Rightarrow> TalkingHeadRTMPService \<times> (route_exn + string)" where
  "stop_stream S stream_id env =
     (if map_of (active_streams S) stream_id = None
      then (S, Inl (HTTPException 404 ''Stream not found''))
      else
        (case TalkingHeadRTMPService_stop_stream S stream_id env of
           (S1, Inl e) \<Rightarrow> (S1, Inl (route_except_Exception e))
         | (S1, Inr _) \<Rightarrow> (S1, Inr (''Stream '' @ stream_id @ '' stopped successfully''))))"

definition list_streams :: "TalkingHeadRTMPService \<Rightarrow> string list \<times> int" where
  "list_streams S = (map fst (active_streams S), int (length (active_streams S)))"

section \<open>streaming\_service.py\<close>

subsection \<open>StreamingVideoWriter\<close>

text \<open>
  The dictionaries the writer puts on its queue: a frame (\<^verbatim>\<open>type\<close>, \<^verbatim>\<open>data\<close>,
  \<^verbatim>\<open>timestamp\<close>) or the end marker. The timestamp is a reading of \<^verbatim>\<open>time.time()\<close>.
\<close>

datatype queue_message = Frame_message string real | End_message

record StreamingVideoWriter =
  websocket :: nat
  frame_queue :: "queue_message py_queue"
  ws_is_active :: bool

definition StreamingVideoWriter_init :: "nat \<Rightarrow> StreamingVideoWriter" where
  "StreamingVideoWriter_init ws = \<lparr>websocket = ws, frame_queue = new_queue 30, ws_is_active = True\<rparr>"

text \<open>
  \<^verbatim>\<open>__call__\<close>: \<open>t1\<close> is the clock's reading when the first dictionary is built,
  \<open>t2\<close> its reading when the second one is, in the \<^verbatim>\<open>asyncio.QueueFull\<close> handler.
\<close>

definition StreamingVideoWriter_call ::
  "'f cv2 \<Rightarrow> StreamingVideoWriter \<Rightarrow> 'f \<Rightarrow> string \<Rightarrow> real \<Rightarrow> real \<Rightarrow> StreamingVideoWriter \<times> (py_exn + unit)" where
  "StreamingVideoWriter_call cv w frame_rgb fmt t1 t2 =
     (if \<not> ws_is_active w then (w, Inr ())
      else
        let frame_bgr = (if fmt = ''rgb'' then cvtColor_RGB2BGR cv frame_rgb else frame_rgb);
            frame_base64 = imencode_jpg_b64 cv frame_bgr
        in (case asyncio_put_nowait (frame_queue w) (Frame_message frame_base64 t1) of
              Inr q \<Rightarrow> (w\<lparr>frame_queue := q\<rparr>, Inr ())
            | Inl e \<Rightarrow>
                if exn_cls e = Asyncio_QueueFull then
                  (case asyncio_get_nowait (frame_queue w) of
                     Inl e1 \<Rightarrow>
                       if exn_cls e1 = Asyncio_QueueEmpty then (w, Inr ()) else (w, Inl e1)
                   | Inr (_, q1) \<Rightarrow>
                       (case asyncio_put_nowait q1 (Frame_message frame_base64 t2) of
                          Inr q2 \<Rightarrow> (w\<lparr>frame_queue := q2\<rparr>, Inr ())
                        | Inl e2 \<Rightarrow>
                            if exn_cls e2 = Asyncio_QueueEmpty
                            then (w\<lparr>frame_queue := q1\<rparr>, Inr ())
                            else (w\<lparr>frame_queue := q1\<rparr>, Inl e2)))
                else (w, Inl e)))"

definition StreamingVideoWriter_close :: "StreamingVideoWriter \<Rightarrow> StreamingVideoWriter \<times> (py_exn + unit)" where
  "StreamingVideoWriter_close w =
     (let w0 = w\<lparr>ws_is_active := False\<rparr>
      in (case asyncio_put_nowait (frame_queue w0) End_message of
            Inr q \<Rightarrow> (w0\<lparr>frame_queue := q\<rparr>, Inr ())
          | Inl e \<Rightarrow> if exn_cls e = Asyncio_QueueFull then (w0, Inr ()) else (w0, Inl e)))"

text \<open>The engine writing a list of frames, each with its format and clock readings.\<close>

fun StreamingVideoWriter_calls ::
  "'f cv2 \<Rightarrow> StreamingVideoWriter \<Rightarrow> ('f \<times> string \<times> real \<times> real) list \<Rightarrow> StreamingVideoWriter \<times> (py_exn + unit)" where
  "StreamingVideoWriter_calls cv w [] = (w, Inr ())"
| "StreamingVideoWriter_calls cv w ((f, fmt, t1, t2) # cs) =
     (case StreamingVideoWriter_call cv w f fmt t1 t2 of
        (w', Inl e) \<Rightarrow> (w', Inl e)
      | (w', Inr _) \<Rightarrow> StreamingVideoWriter_calls cv w' cs)"

text \<open>
  The dictionary a call builds from its frame: encoded as the method does, stamped with
  the first reading when the first \<^verbatim>\<open>put_nowait\<close> took it and the second otherwise.
\<close>

definition frame_message :: "'f cv2 \<Rightarrow> bool \<Rightarrow> 'f \<times> string \<times> real \<times> real \<Rightarrow> queue_message" where
  "frame_message cv first c =
     (case c of (f, fmt, t1, t2) \<Rightarrow>
        Frame_message (imencode_jpg_b64 cv (if fmt = ''rgb'' then cvtColor_RGB2BGR cv f else f))
          (if first then t1 else t2))"

text \<open>The delivery side draining the frame queue until it is empty.\<close>

function drain_frames :: "'a py_queue \<Rightarrow> 'a list" where
  "drain_frames q =
     (case asyncio_get_nowait q of
        Inl _ \<Rightarrow> []
      | Inr (x, q') \<Rightarrow> x # drain_frames q')"
  by pat_completeness auto
termination
  by (relation "measure (\<lambda>q. length (items q))")
     (auto simp: asyncio_get_nowait_def get_nowait_raising_def split: list.splits)

declare drain_frames.simps [simp del]

subsection \<open>TalkingHeadStreamingService\<close>

record session_dict =
  session_sdk :: StreamSDK
  writer :: StreamingVideoWriter
  session_websocket :: nat
  session_active :: bool

record TalkingHeadStreamingService =
  ws_cfg_pkl :: string
  ws_data_root :: string
  active_sessions :: "(string \<times> nat) list"
  session_dicts :: "nat \<Rightarrow> session_dict"
  ws_allocated :: nat

definition TalkingHeadStreamingService_create_session ::
  "TalkingHeadStreamingService \<Rightarrow> string \<Rightarrow> string \<Rightarrow> nat \<Rightarrow> outcome \<Rightarrow> outcome
     \<Rightarrow> TalkingHeadStreamingService \<times> (py_exn + StreamSDK)" where
  "TalkingHeadStreamingService_create_session S session_id src ws oi os =
     (case StreamSDK_init (ws_cfg_pkl S) (ws_data_root S) oi of
        Inl e \<Rightarrow> (S, Inl e)
      | Inr k0 \<Rightarrow>
          (case StreamSDK_setup k0 src ''/dev/null'' service_setup_kwargs os of
             Inl e \<Rightarrow> (S, Inl e)
           | Inr k \<Rightarrow>
               let r = ws_allocated S;
                   d = \<lparr>session_sdk = k, writer = StreamingVideoWriter_init ws,
                        session_websocket = ws, session_active = True\<rparr>
               in (S\<lparr>active_sessions := AList.update session_id r (active_sessions S),
                     session_dicts := (session_dicts S)(r := d),
                     ws_allocated := Suc r\<rparr>,
                   Inr k)))"

text \<open>
  \<^verbatim>\<open>close_session\<close>, the statements between the lookup and the \<^verbatim>\<open>del\<close>; \<open>oc\<close> is
  the outcome of the engine's \<^verbatim>\<open>close\<close>.
\<close>

definition close_session_teardown :: "session_dict \<Rightarrow> outcome \<Rightarrow> session_dict \<times> (py_exn + unit)" where
  "close_session_teardown d oc =
     (let d0 = d\<lparr>session_active := False\<rparr>
      in (case StreamSDK_close (session_sdk d0) oc of
            (k, Inl e) \<Rightarrow> (d0\<lparr>session_sdk := k\<rparr>, Inl e)
          | (k, Inr _) \<Rightarrow>
              let d1 = d0\<lparr>session_sdk := k\<rparr>
              in (case StreamingVideoWriter_close (writer d1) of
                    (w, res) \<Rightarrow> (d1\<lparr>writer := w\<rparr>, res))))"

definition TalkingHeadStreamingService_close_session ::
  "TalkingHeadStreamingService \<Rightarrow> string \<Rightarrow> outcome \<Rightarrow> TalkingHeadStreamingService \<times> (py_exn + unit)" where
  "TalkingHeadStreamingService_close_session S session_id oc =
     (case map_of (active_sessions S) session_id of
        None \<Rightarrow> (S, Inr ())
      | Some r \<Rightarrow>
          (case close_session_teardown (session_dicts S r) oc of
             (d, Inl e) \<Rightarrow> (S\<lparr>session_dicts := (session_dicts S)(r := d)\<rparr>, Inl e)
           | (d, Inr _) \<Rightarrow>
               (S\<lparr>session_dicts := (session_dicts S)(r := d),
                  active_sessions := AList.delete session_id (active_sessions S)\<rparr>, Inr ())))"

section \<open>Notions the properties are stated with\<close>

text \<open>The \<open>n\<close> most recently pushed elements of a history of pushes, oldest first.\<close>

definition newest :: "nat \<Rightarrow> 'a list \<Rightarrow> 'a list" where
  "newest n xs = drop (length xs - n) xs"

text \<open>A capture object as the service builds it, after its device has opened and started.\<close>

definition running_capture :: AudioCapture where
  "running_capture = fst (AudioCapture_start_capture (AudioCapture_init 16000 1024) None None)"

text \<open>
  What a run of writes into a fresh \<^verbatim>\<open>StreamingVideoWriter\<close> pushes: the first thirty
  calls find room at once, every later call pushes in the \<^verbatim>\<open>QueueFull\<close> handler.
\<close>

definition pushed_messages :: "'f cv2 \<Rightarrow> ('f \<times> string \<times> real \<times> real) list \<Rightarrow> queue_message list" where
  "pushed_messages cv cs = map (\<lambda>(i, c). frame_message cv (i < 30) c) (enumerate 0 cs)"

text \<open>
  \<^verbatim>\<open>init_service\<close> of the RTMP module: a service with no stream. No stream dictionary
  has been allocated; \<open>no_stream_dict\<close> stands at every address and is never read.
\<close>

definition no_stream_dict :: stream_dict where
  "no_stream_dict =
     \<lparr>sdk = \<lparr>sdk_cfg_pkl = [], sdk_data_root = [], sdk_setup_args = None, sdk_closed = True\<rparr>,
      rtmp_writer = RTMPStreamWriter_default [],
      audio_capture = AudioCapture_init 16000 1024,
      active = False, audio_thread = None\<rparr>"

definition init_service :: "string \<Rightarrow> string \<Rightarrow> TalkingHeadRTMPService" where
  "init_service cfg droot =
     \<lparr>cfg_pkl = cfg, data_root = droot, active_streams = [],
      stream_dicts = (\<lambda>_. no_stream_dict), allocated = 0\<rparr>"

text \<open>\<^verbatim>\<open>init_service\<close> of the WebSocket module.\<close>

definition no_session_dict :: session_dict where
  "no_session_dict =
     \<lparr>session_sdk = \<lparr>sdk_cfg_pkl = [], sdk_data_root = [], sdk_setup_args = None, sdk_closed = True\<rparr>,
      writer = StreamingVideoWriter_init 0, session_websocket = 0, session_active = False\<rparr>"

definition ws_init_service :: "string \<Rightarrow> string \<Rightarrow> TalkingHeadStreamingService" where
  "ws_init_service cfg droot =
     \<lparr>ws_cfg_pkl = cfg, ws_data_root = droot, active_sessions = [],
      session_dicts = (\<lambda>_. no_session_dict), ws_allocated = 0\<rparr>"

text \<open>
  Concrete inputs for evaluating the model: an image library over frames that are lists
  of bytes with a fixed 512 by 512 shape, and collaborator outcomes where every call
  returns.
\<close>

definition bytes_cv2 :: "bytes cv2" where
  "bytes_cv2 =
     \<lparr>shape2 = (\<lambda>_. (512, 512)), cvtColor_BGR2RGB = rev, cvtColor_RGB2BGR = rev,
      resize = (\<lambda>f _. f), tobytes = (\<lambda>f. f),
      imencode_jpg_b64 = map (\<lambda>b. char_of (unat b))\<rparr>"

definition create_ok :: create_env where
  "create_ok = \<lparr>env_sdk_init = None, env_popen = None, env_pyaudio = None, env_sdk_setup = None\<rparr>"

definition capture_ok :: capture_env where
  "capture_ok = \<lparr>env_open = None, env_start_stream = None\<rparr>"

definition stop_ok :: stop_env where
  "stop_ok =
     \<lparr>env_stop_stream = None, env_stream_close = None, env_terminate = None,
      env_join_ends = True, env_sdk_close = None, env_stdin_close = None, env_wait = None\<rparr>"

text \<open>
  A service with the one stream \<^verbatim>\<open>s1\<close>, as the route \<^verbatim>\<open>start_stream\<close> leaves
  it when every collaborator call returns, and a WebSocket service with one session.
\<close>

definition sample_request :: StreamRequest where
  "sample_request = \<lparr>source_path = ''face.png'', request_rtmp_url = ''rtmp://host/live''\<rparr>"

definition one_stream_service :: TalkingHeadRTMPService where
  "one_stream_service =
     fst (start_stream (init_service ''cfg.pkl'' ''/data'') ''s1'' sample_request create_ok capture_ok)"

definition one_session_service :: TalkingHeadStreamingService where
  "one_session_service =
     fst (TalkingHeadStreamingService_create_session (ws_init_service ''cfg.pkl'' ''/data'')
            ''1700000000.5'' ''face.png'' 7 None None)"

section \<open>Drop-oldest queues\<close>

text \<open>Facts about the newest \<open>n\<close> elements of a history.\<close>

lemma newest_append_newest: "newest n (newest n xs @ ys) = newest n (xs @ ys)"
  by (cases "length xs \<le> n") (auto simp: newest_def add.commute)

lemma newest_snoc_full:
  "length xs = n \<Longrightarrow> 0 < n \<Longrightarrow> newest n (xs @ [x]) = tl xs @ [x]"
  by (cases xs) (auto simp: newest_def)

lemma newest_snoc_room:
  "length xs < n \<Longrightarrow> newest n (xs @ [x]) = xs @ [x]"
  by (auto simp: newest_def)

lemma length_newest: "length (newest n xs) = min n (length xs)"
  by (auto simp: newest_def)

lemma newest_short: "length xs \<le> n \<Longrightarrow> newest n xs = xs"
  by (simp add: newest_def)

text \<open>
  One callback on an active capture whose queue is within its bound leaves the newest
  \<open>n\<close> chunks of the old content followed by the new chunk, and raises nothing.
\<close>

lemma audio_callback_active:
  assumes "capture_is_active ac" "maxsize (audio_queue ac) = int n" "0 < n"
    "length (items (audio_queue ac)) \<le> n" "length b mod 4 = 0"
  shows "AudioCapture_audio_callback ac b =
     (ac\<lparr>audio_queue := (audio_queue ac)\<lparr>items := newest n (items (audio_queue ac) @ [float32_patterns b])\<rparr>\<rparr>,
      Inr (None, paContinue))"
proof (cases "length (items (audio_queue ac)) = n")
  case True
  then obtain y ys where ys: "items (audio_queue ac) = y # ys" using assms(3) by (cases "items (audio_queue ac)") auto
  show ?thesis using assms True ys newest_snoc_full[of "items (audio_queue ac)" n "float32_patterns b"]
    by (simp add: AudioCapture_audio_callback_def np_frombuffer_def queue_put_nowait_def
        queue_get_nowait_def put_nowait_raising_def get_nowait_raising_def full_def)
next
  case False
  then have "length (items (audio_queue ac)) < n" using assms(4) by simp
  then show ?thesis using assms newest_snoc_room[of "items (audio_queue ac)" n "float32_patterns b"]
    by (simp add: AudioCapture_audio_callback_def np_frombuffer_def queue_put_nowait_def
        queue_get_nowait_def put_nowait_raising_def get_nowait_raising_def full_def)
qed

lemma audio_callbacks_active:
  assumes "capture_is_active ac" "maxsize (audio_queue ac) = int n" "0 < n"
    "length (items (audio_queue ac)) \<le> n" "list_all (\<lambda>b. length b mod 4 = 0) bufs"
  shows "audio_callbacks ac bufs =
     (ac\<lparr>audio_queue := (audio_queue ac)\<lparr>items := newest n (items (audio_queue ac) @ map float32_patterns bufs)\<rparr>\<rparr>,
      Inr ())"
  using assms
proof (induction bufs arbitrary: ac)
  case Nil
  then show ?case by (simp add: newest_short)
next
  case (Cons b bs)
  let ?ac' = "ac\<lparr>audio_queue := (audio_queue ac)\<lparr>items := newest n (items (audio_queue ac) @ [float32_patterns b])\<rparr>\<rparr>"
  have step: "AudioCapture_audio_callback ac b = (?ac', Inr (None, paContinue))"
    using Cons.prems by (intro audio_callback_active) simp_all
  have "audio_callbacks ?ac' bs =
     (?ac'\<lparr>audio_queue := (audio_queue ?ac')\<lparr>items := newest n (items (audio_queue ?ac') @ map float32_patterns bs)\<rparr>\<rparr>,
      Inr ())"
    using Cons.prems by (intro Cons.IH) (simp_all add: length_newest)
  then show ?case using step by (simp add: newest_append_newest)
qed

text \<open>Draining returns the queue's content, oldest first.\<close>

lemma drain_chunks_items: "drain_chunks ac = items (audio_queue ac)"
proof (induction "items (audio_queue ac)" arbitrary: ac)
  case Nil
  then show ?case
    by (subst drain_chunks.simps)
       (simp add: AudioCapture_get_audio_chunk_def queue_get_nowait_def get_nowait_raising_def)
next
  case (Cons x xs)
  have "drain_chunks (ac\<lparr>audio_queue := (audio_queue ac)\<lparr>items := xs\<rparr>\<rparr>) = xs"
    using Cons.hyps(1)[of "ac\<lparr>audio_queue := (audio_queue ac)\<lparr>items := xs\<rparr>\<rparr>"] by simp
  then show ?case using Cons.hyps(2)[symmetric]
    by (subst drain_chunks.simps)
       (simp add: AudioCapture_get_audio_chunk_def queue_get_nowait_def get_nowait_raising_def)
qed

lemma drain_frames_items: "drain_frames q = items q"
proof (induction "items q" arbitrary: q)
  case Nil
  then show ?case
    by (subst drain_frames.simps) (simp add: asyncio_get_nowait_def get_nowait_raising_def)
next
  case (Cons x xs)
  have "drain_frames (q\<lparr>items := xs\<rparr>) = xs"
    using Cons.hyps(1)[of "q\<lparr>items := xs\<rparr>"] by simp
  then show ?case using Cons.hyps(2)[symmetric]
    by (subst drain_frames.simps) (simp add: asyncio_get_nowait_def get_nowait_raising_def)
qed

text \<open>The same for one write of an active \<^verbatim>\<open>StreamingVideoWriter\<close>.\<close>

lemma writer_call_active:
  assumes "ws_is_active w" "maxsize (frame_queue w) = int n" "0 < n"
    "length (items (frame_queue w)) \<le> n"
  shows "StreamingVideoWriter_call cv w f fmt t1 t2 =
     (w\<lparr>frame_queue := (frame_queue w)\<lparr>items := newest n (items (frame_queue w) @
           [frame_message cv (length (items (frame_queue w)) < n) (f, fmt, t1, t2)])\<rparr>\<rparr>,
      Inr ())"
proof (cases "length (items (frame_queue w)) = n")
  case True
  then obtain y ys where ys: "items (frame_queue w) = y # ys" using assms(3) by (cases "items (frame_queue w)") auto
  show ?thesis using assms True ys
      newest_snoc_full[of "items (frame_queue w)" n "frame_message cv False (f, fmt, t1, t2)"]
    by (simp add: StreamingVideoWriter_call_def asyncio_put_nowait_def frame_message_def
        asyncio_get_nowait_def put_nowait_raising_def get_nowait_raising_def full_def Let_def)
next
  case False
  then have lt: "length (items (frame_queue w)) < n" using assms(4) by simp
  then show ?thesis using assms
      newest_snoc_room[of "items (frame_queue w)" n "frame_message cv True (f, fmt, t1, t2)"]
    by (simp add: StreamingVideoWriter_call_def asyncio_put_nowait_def frame_message_def
        asyncio_get_nowait_def put_nowait_raising_def get_nowait_raising_def full_def Let_def)
qed

lemma writer_calls_active:
  assumes "ws_is_active w" "maxsize (frame_queue w) = 30"
    "items (frame_queue w) = newest 30 hist"
  shows "StreamingVideoWriter_calls cv w cs =
     (w\<lparr>frame_queue := (frame_queue w)\<lparr>items := newest 30 (hist @
           map (\<lambda>(i, c). frame_message cv (i < 30) c) (enumerate (length hist) cs))\<rparr>\<rparr>,
      Inr ())"
  using assms
proof (induction cs arbitrary: w hist)
  case Nil
  then show ?case by simp
next
  case (Cons c cs)
  obtain f fmt t1 t2 where c: "c = (f, fmt, t1, t2)" by (cases c) auto
  let ?m = "frame_message cv (length hist < 30) c"
  let ?w' = "w\<lparr>frame_queue := (frame_queue w)\<lparr>items := newest 30 (hist @ [?m])\<rparr>\<rparr>"
  have fl: "(length (items (frame_queue w)) < 30) = (length hist < 30)"
    using Cons.prems(3) by (auto simp: length_newest)
  have step: "StreamingVideoWriter_call cv w f fmt t1 t2 = (?w', Inr ())"
    using writer_call_active[of w 30 cv f fmt t1 t2] Cons.prems fl
    by (simp add: length_newest c newest_append_newest)
  have "StreamingVideoWriter_calls cv ?w' cs =
     (?w'\<lparr>frame_queue := (frame_queue ?w')\<lparr>items := newest 30 ((hist @ [?m]) @
           map (\<lambda>(i, c). frame_message cv (i < 30) c) (enumerate (length (hist @ [?m])) cs))\<rparr>\<rparr>,
      Inr ())"
    using Cons.prems by (intro Cons.IH) simp_all
  then show ?case using step by (simp add: c)
qed


lemma list_all_take: "list_all P xs \<Longrightarrow> list_all P (take k xs)"
  by (auto simp: list_all_iff dest: in_set_takeD)

lemma running_capture_simps:
  "capture_is_active running_capture" "maxsize (audio_queue running_capture) = int 100"
  "items (audio_queue running_capture) = []"
  by (simp_all add: running_capture_def AudioCapture_start_capture_def AudioCapture_init_def
        new_queue_def Let_def)

lemma running_capture_run:
  assumes "list_all (\<lambda>b. length b mod 4 = 0) bufs"
  shows "audio_callbacks running_capture bufs =
     (running_capture\<lparr>audio_queue := (audio_queue running_capture)
         \<lparr>items := newest 100 (map float32_patterns bufs)\<rparr>\<rparr>, Inr ())"
  using audio_callbacks_active[of running_capture 100 bufs] assms
  by (simp add: running_capture_simps)

lemma fresh_writer_run:
  "StreamingVideoWriter_calls cv (StreamingVideoWriter_init ws) cs =
     ((StreamingVideoWriter_init ws)\<lparr>frame_queue := (frame_queue (StreamingVideoWriter_init ws))
         \<lparr>items := newest 30 (pushed_messages cv cs)\<rparr>\<rparr>, Inr ())"
  using writer_calls_active[of "StreamingVideoWriter_init ws" "[]" cv cs]
  by (simp add: StreamingVideoWriter_init_def new_queue_def pushed_messages_def newest_def)

lemma length_pushed_messages: "length (pushed_messages cv cs) = length cs"
  by (simp add: pushed_messages_def)

text \<open>
  Claim C1. The audio queue has capacity 100 and the frame queue capacity 30. For every
  run of more than 100 driver callbacks on a running capture (each buffer a whole number
  of float32 samples), and every run of more than 30 writes on a fresh
  \<^verbatim>\<open>StreamingVideoWriter\<close>: after every prefix of the run the queue holds at most
  its capacity; the whole run raises nothing; afterwards the queue holds exactly its
  capacity, and draining it yields the most recently pushed 100 chunks, respectively 30
  frame messages, in push order.
\<close>

theorem C1_drop_oldest_keeps_newest:
  assumes "list_all (\<lambda>b. length b mod 4 = 0) bufs" and "100 < length bufs" and "30 < length cs"
  shows "(\<forall>k. length (items (audio_queue (fst (audio_callbacks running_capture (take k bufs))))) \<le> 100)
     \<and> (\<exists>ac. audio_callbacks running_capture bufs = (ac, Inr ())
            \<and> length (items (audio_queue ac)) = 100
            \<and> drain_chunks ac = newest 100 (map float32_patterns bufs))
     \<and> (\<forall>k. length (items (frame_queue (fst (StreamingVideoWriter_calls cv
                 (StreamingVideoWriter_init ws) (take k cs))))) \<le> 30)
     \<and> (\<exists>w. StreamingVideoWriter_calls cv (StreamingVideoWriter_init ws) cs = (w, Inr ())
            \<and> length (items (frame_queue w)) = 30
            \<and> drain_frames (frame_queue w) = newest 30 (pushed_messages cv cs))"
proof -
  have a1: "length (items (audio_queue (fst (audio_callbacks running_capture (take k bufs))))) \<le> 100" for k
    using running_capture_run[OF list_all_take[OF assms(1), of k]]
    by (simp add: length_newest)
  have a2: "\<exists>ac. audio_callbacks running_capture bufs = (ac, Inr ())
            \<and> length (items (audio_queue ac)) = 100
            \<and> drain_chunks ac = newest 100 (map float32_patterns bufs)"
    using running_capture_run[OF assms(1)] assms(2)
    by (simp add: length_newest drain_chunks_items)
  have f1: "length (items (frame_queue (fst (StreamingVideoWriter_calls cv
                 (StreamingVideoWriter_init ws) (take k cs))))) \<le> 30" for k
    by (simp add: fresh_writer_run length_newest)
  have f2: "\<exists>w. StreamingVideoWriter_calls cv (StreamingVideoWriter_init ws) cs = (w, Inr ())
            \<and> length (items (frame_queue w)) = 30
            \<and> drain_frames (frame_queue w) = newest 30 (pushed_messages cv cs)"
    using assms(3)
    by (simp add: fresh_writer_run length_newest drain_frames_items length_pushed_messages)
  from a1 a2 f1 f2 show ?thesis by blast
qed

text \<open>
  Scenarios A and B of the specification: 150 chunks into the audio queue, 40 frames
  into the frame queue.
\<close>

theorem C1_drop_oldest_keeps_newest_witness:
  "list_all (\<lambda>b. length b mod 4 = 0) (map (\<lambda>i. [word_of_nat i, 0, 0, 0 :: 8 word]) [0..<150])
   \<and> (\<exists>ac. audio_callbacks running_capture (map (\<lambda>i. [word_of_nat i, 0, 0, 0]) [0..<150]) = (ac, Inr ())
          \<and> length (items (audio_queue ac)) = 100
          \<and> drain_chunks ac = newest 100 (map float32_patterns (map (\<lambda>i. [word_of_nat i, 0, 0, 0]) [0..<150])))
   \<and> (\<exists>w. StreamingVideoWriter_calls bytes_cv2 (StreamingVideoWriter_init 0)
              (map (\<lambda>i. ([word_of_nat i], ''rgb'', real i, real i + 1)) [0..<40]) = (w, Inr ())
          \<and> length (items (frame_queue w)) = 30
          \<and> drain_frames (frame_queue w) = newest 30 (pushed_messages bytes_cv2
               (map (\<lambda>i. ([word_of_nat i], ''rgb'', real i, real i + 1)) [0..<40])))"
  using C1_drop_oldest_keeps_newest[of "map (\<lambda>i. [word_of_nat i, 0, 0, 0 :: 8 word]) [0..<150]"
      "map (\<lambda>i. ([word_of_nat i], ''rgb'', real i, real i + 1)) [0..<40]" bytes_cv2 0]
  by (simp add: list_all_iff)

section \<open>The RTMP writer\<close>

text \<open>A writer that is inactive or has no process ignores every write.\<close>

lemma rtmp_call_inactive:
  "\<not> rtmp_is_active w \<or> process w = None \<Longrightarrow> RTMPStreamWriter_call cv w f fmt wr fl = (w, Inr ())"
  by (simp add: RTMPStreamWriter_call_def)

lemma rtmp_calls_inactive:
  "\<not> rtmp_is_active w \<or> process w = None \<Longrightarrow> RTMPStreamWriter_calls cv w cs = (w, Inr ())"
  by (induction cs) (auto simp: rtmp_call_inactive)

lemma rtmp_close_inactive: "\<not> rtmp_is_active (fst (RTMPStreamWriter_close w cl wt))"
  by (auto simp: RTMPStreamWriter_close_def rtmp_except_timeout_def Let_def split: option.splits)

lemma rtmp_close_returns:
  "RTMPStreamWriter_close w cl wt = (w', Inr ()) \<Longrightarrow> \<not> rtmp_is_active w' \<and> process w' = None"
  by (auto simp: RTMPStreamWriter_close_def rtmp_except_timeout_def Let_def split: option.splits if_splits)

text \<open>
  Claim C2. When \<^verbatim>\<open>stdin.write\<close> or \<^verbatim>\<open>stdin.flush\<close> of an active writer raises
  \<^verbatim>\<open>BrokenPipeError\<close> or another \<^verbatim>\<open>OSError\<close>, the write returns without raising
  and leaves the writer inactive; every later run of writes, whatever the pipe would do,
  returns without raising and leaves the writer, its process and the bytes written to
  the pipe as they were.
\<close>

theorem C2_write_failure_deactivates:
  assumes "rtmp_is_active w" and "process w = Some p" and "is_OSError (exn_cls e)"
    and "wr = Some e \<or> (wr = None \<and> fl = Some e)"
  shows "\<exists>w'. RTMPStreamWriter_call cv w f fmt wr fl = (w', Inr ())
           \<and> \<not> rtmp_is_active w'
           \<and> (\<forall>cs. RTMPStreamWriter_calls cv w' cs = (w', Inr ()))"
proof -
  obtain w' where w': "RTMPStreamWriter_call cv w f fmt wr fl = (w', Inr ())" "\<not> rtmp_is_active w'"
    using assms by (auto simp: RTMPStreamWriter_call_def rtmp_except_disconnect_def Let_def)
  then show ?thesis using rtmp_calls_inactive[of w' cv] by blast
qed

text \<open>A started writer whose first write meets a broken pipe, followed by two more writes.\<close>

theorem C2_write_failure_deactivates_witness:
  "\<exists>w'. RTMPStreamWriter_call bytes_cv2
           (fst (RTMPStreamWriter_start (RTMPStreamWriter_default ''rtmp://host/live'') None))
           [1, 2, 3] ''rgb'' (Some (PyExn BrokenPipeError ''Broken pipe'')) None = (w', Inr ())
         \<and> \<not> rtmp_is_active w'
         \<and> process w' = process (fst (RTMPStreamWriter_start (RTMPStreamWriter_default ''rtmp://host/live'') None))
         \<and> RTMPStreamWriter_calls bytes_cv2 w'
              [([4, 5, 6], ''rgb'', None, None), ([7], ''bgr'', Some (PyExn ValueError ''closed''), None)]
            = (w', Inr ())"
  using C2_write_failure_deactivates[of
      "fst (RTMPStreamWriter_start (RTMPStreamWriter_default ''rtmp://host/live'') None)"
      "\<lparr>popen_url = ''rtmp://host/live'', popen_size = (512, 512), popen_rate = 25,
        stdin_written = [], stdin_closed = False\<rparr>"
      "PyExn BrokenPipeError ''Broken pipe''" "Some (PyExn BrokenPipeError ''Broken pipe'')" None
      bytes_cv2 "[1, 2, 3]" "''rgb''"]
  by (auto simp: RTMPStreamWriter_start_def RTMPStreamWriter_default_def RTMPStreamWriter_init_def
       RTMPStreamWriter_call_def rtmp_except_disconnect_def)

text \<open>
  Claim C10. A write on a writer that is inactive or has no subprocess handle returns
  at once, raises nothing and changes nothing (no byte reaches a pipe). That is the
  state of a writer before \<^verbatim>\<open>start\<close>, after a \<^verbatim>\<open>start\<close> whose spawn raised, and
  after \<^verbatim>\<open>close\<close>, whatever \<^verbatim>\<open>close\<close> met.
\<close>

theorem C10_write_without_open_pipe_is_noop:
  "(\<not> rtmp_is_active w \<or> process w = None \<longrightarrow>
       RTMPStreamWriter_call cv w f fmt wr fl = (w, Inr ()))
   \<and> RTMPStreamWriter_call cv (RTMPStreamWriter_init url wd ht r) f fmt wr fl
       = (RTMPStreamWriter_init url wd ht r, Inr ())
   \<and> RTMPStreamWriter_call cv (fst (RTMPStreamWriter_start (RTMPStreamWriter_init url wd ht r) (Some e))) f fmt wr fl
       = (RTMPStreamWriter_init url wd ht r, Inr ())
   \<and> RTMPStreamWriter_call cv (fst (RTMPStreamWriter_close w cl wt)) f fmt wr fl
       = (fst (RTMPStreamWriter_close w cl wt), Inr ())"
  using rtmp_close_inactive[of w cl wt]
  by (simp add: rtmp_call_inactive RTMPStreamWriter_init_def RTMPStreamWriter_start_def)

text \<open>A write after start and close, and a write on an active writer without a process.\<close>

theorem C10_write_without_open_pipe_is_noop_witness:
  "RTMPStreamWriter_call bytes_cv2
     (fst (RTMPStreamWriter_close (fst (RTMPStreamWriter_start (RTMPStreamWriter_default ''rtmp://host/live'') None)) None None))
     [1, 2, 3] ''rgb'' None None
   = (RTMPStreamWriter_default ''rtmp://host/live'', Inr ())
   \<and> RTMPStreamWriter_call bytes_cv2
     ((RTMPStreamWriter_default ''rtmp://host/live'')\<lparr>rtmp_is_active := True\<rparr>) [1, 2, 3] ''rgb'' None None
   = ((RTMPStreamWriter_default ''rtmp://host/live'')\<lparr>rtmp_is_active := True\<rparr>, Inr ())"
  using C10_write_without_open_pipe_is_noop[of
      "(RTMPStreamWriter_default ''rtmp://host/live'')\<lparr>rtmp_is_active := True\<rparr>" bytes_cv2 "[1, 2, 3]" "''rgb''" None None
      "''rtmp://host/live''" 512 512 25 "PyExn OSError ''x''" None None]
  by (simp add: RTMPStreamWriter_start_def RTMPStreamWriter_default_def RTMPStreamWriter_init_def
       RTMPStreamWriter_close_def RTMPStreamWriter_call_def)

section \<open>The WebSocket frame writer\<close>

text \<open>An inactive writer ignores every write; \<^verbatim>\<open>close\<close> never raises.\<close>

lemma writer_call_inactive:
  "\<not> ws_is_active w \<Longrightarrow> StreamingVideoWriter_call cv w f fmt t1 t2 = (w, Inr ())"
  by (simp add: StreamingVideoWriter_call_def)

lemma writer_calls_inactive:
  "\<not> ws_is_active w \<Longrightarrow> StreamingVideoWriter_calls cv w cs = (w, Inr ())"
  by (induction cs) (auto simp: writer_call_inactive)

lemma writer_close_cases:
  "StreamingVideoWriter_close w =
     (if full (frame_queue w) then (w\<lparr>ws_is_active := False\<rparr>, Inr ())
      else (w\<lparr>ws_is_active := False,
              frame_queue := (frame_queue w)\<lparr>items := items (frame_queue w) @ [End_message]\<rparr>\<rparr>, Inr ()))"
  by (simp add: StreamingVideoWriter_close_def asyncio_put_nowait_def put_nowait_raising_def Let_def)

text \<open>
  Claim C7. When \<^verbatim>\<open>close\<close> is called on a writer whose frame queue is full, it
  returns without raising, only the active flag changes, and the queue holds what it
  held: the end marker is dropped.
\<close>

theorem C7_close_on_full_queue_drops_marker:
  "full (frame_queue w) \<Longrightarrow>
     StreamingVideoWriter_close w = (w\<lparr>ws_is_active := False\<rparr>, Inr ())
     \<and> items (frame_queue (fst (StreamingVideoWriter_close w))) = items (frame_queue w)"
  by (simp add: writer_close_cases)

text \<open>
  Scenario B of the specification: 40 frames into a fresh writer with nobody draining,
  then \<^verbatim>\<open>close\<close>.
\<close>

theorem C7_close_on_full_queue_drops_marker_witness:
  "full (frame_queue (fst (StreamingVideoWriter_calls bytes_cv2 (StreamingVideoWriter_init 0)
       (map (\<lambda>i. ([word_of_nat i], ''rgb'', real i, real i + 1)) [0..<40]))))
   \<and> snd (StreamingVideoWriter_close (fst (StreamingVideoWriter_calls bytes_cv2 (StreamingVideoWriter_init 0)
       (map (\<lambda>i. ([word_of_nat i], ''rgb'', real i, real i + 1)) [0..<40])))) = Inr ()
   \<and> items (frame_queue (fst (StreamingVideoWriter_close (fst (StreamingVideoWriter_calls bytes_cv2
       (StreamingVideoWriter_init 0)
       (map (\<lambda>i. ([word_of_nat i], ''rgb'', real i, real i + 1)) [0..<40]))))))
     = newest 30 (pushed_messages bytes_cv2 (map (\<lambda>i. ([word_of_nat i], ''rgb'', real i, real i + 1)) [0..<40]))"
proof -
  let ?w = "fst (StreamingVideoWriter_calls bytes_cv2 (StreamingVideoWriter_init 0)
       (map (\<lambda>i. ([word_of_nat i], ''rgb'', real i, real i + 1)) [0..<40]))"
  have f: "full (frame_queue ?w)"
    unfolding fresh_writer_run
    by (simp add: full_def length_newest length_pushed_messages
          StreamingVideoWriter_init_def new_queue_def)
  have i: "items (frame_queue ?w) = newest 30 (pushed_messages bytes_cv2
        (map (\<lambda>i. ([word_of_nat i], ''rgb'', real i, real i + 1)) [0..<40]))"
    by (simp add: fresh_writer_run)
  show ?thesis using C7_close_on_full_queue_drops_marker[OF f] f i by simp
qed

text \<open>
  Claim C9. After \<^verbatim>\<open>close\<close> the writer is inactive, and every later run of writes
  returns without raising and leaves the writer, its queue included, as \<^verbatim>\<open>close\<close>
  left it. So when the queue had room for the end marker, the marker is and stays the
  last element of the queue.
\<close>

theorem C9_no_frame_after_close:
  "StreamingVideoWriter_close w = (w', r) \<Longrightarrow>
     \<not> ws_is_active w'
     \<and> (\<forall>cs. StreamingVideoWriter_calls cv w' cs = (w', Inr ()))
     \<and> (\<not> full (frame_queue w) \<longrightarrow>
          (\<forall>cs. items (frame_queue (fst (StreamingVideoWriter_calls cv w' cs)))
                 = items (frame_queue w) @ [End_message]))"
proof -
  assume c: "StreamingVideoWriter_close w = (w', r)"
  then have na: "\<not> ws_is_active w'"
    by (auto simp: writer_close_cases split: if_splits)
  have q: "\<not> full (frame_queue w) \<Longrightarrow> items (frame_queue w') = items (frame_queue w) @ [End_message]"
    using c by (auto simp: writer_close_cases split: if_splits)
  show ?thesis using na q by (simp add: writer_calls_inactive)
qed

text \<open>One frame, \<^verbatim>\<open>close\<close>, then two more writes.\<close>

theorem C9_no_frame_after_close_witness:
  "\<exists>w'. StreamingVideoWriter_close (fst (StreamingVideoWriter_call bytes_cv2 (StreamingVideoWriter_init 0) [1] ''rgb'' 10 11))
           = (w', Inr ())
       \<and> \<not> ws_is_active w'
       \<and> StreamingVideoWriter_calls bytes_cv2 w' [([2], ''rgb'', 12, 13), ([3], ''bgr'', 14, 15)] = (w', Inr ())
       \<and> items (frame_queue (fst (StreamingVideoWriter_calls bytes_cv2 w' [([2], ''rgb'', 12, 13), ([3], ''bgr'', 14, 15)])))
           = [Frame_message (imencode_jpg_b64 bytes_cv2 [1]) 10, End_message]"
proof -
  let ?w = "fst (StreamingVideoWriter_call bytes_cv2 (StreamingVideoWriter_init 0) [1] ''rgb'' 10 11)"
  obtain w' r where c: "StreamingVideoWriter_close ?w = (w', r)" by (cases "StreamingVideoWriter_close ?w")
  have w: "?w = (StreamingVideoWriter_init 0)\<lparr>frame_queue := (frame_queue (StreamingVideoWriter_init 0))
       \<lparr>items := [Frame_message (imencode_jpg_b64 bytes_cv2 [1]) 10]\<rparr>\<rparr>"
    by (simp add: StreamingVideoWriter_call_def StreamingVideoWriter_init_def new_queue_def
         asyncio_put_nowait_def put_nowait_raising_def full_def bytes_cv2_def Let_def)
  have nf: "\<not> full (frame_queue ?w)"
    unfolding w by (simp add: full_def StreamingVideoWriter_init_def new_queue_def)
  have r: "r = Inr ()" using c by (auto simp: writer_close_cases split: if_splits)
  have i: "items (frame_queue ?w) = [Frame_message (imencode_jpg_b64 bytes_cv2 [1]) 10]"
    unfolding w by simp
  note T = C9_no_frame_after_close[OF c, of bytes_cv2]
  have A: "\<not> ws_is_active w'" using T by blast
  have B: "StreamingVideoWriter_calls bytes_cv2 w' [([2], ''rgb'', 12, 13), ([3], ''bgr'', 14, 15)] = (w', Inr ())"
    using T by blast
  have C: "items (frame_queue (fst (StreamingVideoWriter_calls bytes_cv2 w' [([2], ''rgb'', 12, 13), ([3], ''bgr'', 14, 15)])))
      = items (frame_queue ?w) @ [End_message]"
    using T nf by blast
  show ?thesis
    using A B C c r i by (simp del: StreamingVideoWriter_calls.simps)
qed

section \<open>The session registry\<close>

text \<open>
  \<^verbatim>\<open>stream_id in service.active_streams\<close> is membership in the keys that
  \<^verbatim>\<open>list_streams\<close> returns.
\<close>

lemma in_keys_iff: "k \<in> set (fst (list_streams S)) \<longleftrightarrow> map_of (active_streams S) k \<noteq> None"
  by (simp add: list_streams_def map_of_eq_None_iff)

lemma map_of_delete_same: "map_of (AList.delete k xs) k = None"
  by (simp add: map_of_eq_None_iff AList.delete_notin_dom)

text \<open>
  Claim C6. \<^verbatim>\<open>start_stream\<close> with an id that \<^verbatim>\<open>list_streams\<close> reports raises
  \<^verbatim>\<open>HTTPException(400, "Stream already exists")\<close> and leaves the service, with every
  stream dictionary it refers to, exactly as it was, whatever the collaborators would
  have done.
\<close>

theorem C6_duplicate_id_is_rejected:
  "stream_id \<in> set (fst (list_streams S)) \<Longrightarrow>
     start_stream S stream_id request cenv denv = (S, Inl (HTTPException 400 ''Stream already exists''))"
  by (simp add: in_keys_iff start_stream_def)

text \<open>
  Claim C8. \<^verbatim>\<open>stop_stream\<close> with an id that \<^verbatim>\<open>list_streams\<close> does not report
  raises \<^verbatim>\<open>HTTPException(404, "Stream not found")\<close>, leaves the service as it was,
  and \<^verbatim>\<open>list_streams\<close> returns afterwards what it returned before.
\<close>

theorem C8_stop_unknown_id:
  "stream_id \<notin> set (fst (list_streams S)) \<Longrightarrow>
     stop_stream S stream_id env = (S, Inl (HTTPException 404 ''Stream not found''))
     \<and> list_streams (fst (stop_stream S stream_id env)) = list_streams S"
  by (simp add: in_keys_iff stop_stream_def)

text \<open>
  Claim C4. When \<^verbatim>\<open>TalkingHeadRTMPService.stop_stream\<close> has returned without raising,
  a second call for the same id, whatever the collaborators would do, returns without
  raising and leaves the service unchanged: the registry, and every stream dictionary
  with its engine, audio capture and writer. The same holds for
  \<^verbatim>\<open>TalkingHeadStreamingService.close_session\<close>.
\<close>

theorem C4_second_stop_is_noop:
  "(TalkingHeadRTMPService_stop_stream S stream_id env = (S', Inr ()) \<longrightarrow>
       TalkingHeadRTMPService_stop_stream S' stream_id env' = (S', Inr ()))
   \<and> (TalkingHeadStreamingService_close_session T session_id oc = (T', Inr ()) \<longrightarrow>
       TalkingHeadStreamingService_close_session T' session_id oc' = (T', Inr ()))"
proof (intro conjI impI)
  assume a: "TalkingHeadRTMPService_stop_stream S stream_id env = (S', Inr ())"
  have "map_of (active_streams S') stream_id = None"
    using a by (auto simp: TalkingHeadRTMPService_stop_stream_def map_of_delete_same
                  split: option.splits prod.splits sum.splits)
  then show "TalkingHeadRTMPService_stop_stream S' stream_id env' = (S', Inr ())"
    by (simp add: TalkingHeadRTMPService_stop_stream_def)
next
  assume a: "TalkingHeadStreamingService_close_session T session_id oc = (T', Inr ())"
  have "map_of (active_sessions T') session_id = None"
    using a by (auto simp: TalkingHeadStreamingService_close_session_def map_of_delete_same
                  split: option.splits prod.splits sum.splits)
  then show "TalkingHeadStreamingService_close_session T' session_id oc' = (T', Inr ())"
    by (simp add: TalkingHeadStreamingService_close_session_def)
qed


text \<open>The sample services, evaluated.\<close>

lemma one_stream_service_eval:
  "active_streams one_stream_service = [(''s1'', 0)]"
  "stream_dicts one_stream_service 0 =
     \<lparr>sdk = \<lparr>sdk_cfg_pkl = ''cfg.pkl'', sdk_data_root = ''/data'',
              sdk_setup_args = Some (''face.png'', ''/dev/null'', service_setup_kwargs),
              sdk_closed = False\<rparr>,
      rtmp_writer = fst (RTMPStreamWriter_start (RTMPStreamWriter_default ''rtmp://host/live'') None),
      audio_capture = running_capture,
      active = True, audio_thread = Some \<lparr>thread_alive = True\<rparr>\<rparr>"
  by (simp_all add: one_stream_service_def start_stream_def init_service_def sample_request_def
        create_ok_def capture_ok_def TalkingHeadRTMPService_create_stream_def
        TalkingHeadRTMPService_start_stream_processing_def StreamSDK_init_def StreamSDK_setup_def
        RTMPStreamWriter_start_def AudioCapture_default_def AudioCapture_start_capture_def
        running_capture_def Let_def)

lemma one_session_service_eval:
  "active_sessions one_session_service = [(''1700000000.5'', 0)]"
  "session_dicts one_session_service 0 =
     \<lparr>session_sdk = \<lparr>sdk_cfg_pkl = ''cfg.pkl'', sdk_data_root = ''/data'',
              sdk_setup_args = Some (''face.png'', ''/dev/null'', service_setup_kwargs),
              sdk_closed = False\<rparr>,
      writer = StreamingVideoWriter_init 7, session_websocket = 7, session_active = True\<rparr>"
  by (simp_all add: one_session_service_def ws_init_service_def
        TalkingHeadStreamingService_create_session_def StreamSDK_init_def StreamSDK_setup_def Let_def)

text \<open>Starting \<^verbatim>\<open>s1\<close> a second time.\<close>

theorem C6_duplicate_id_is_rejected_witness:
  "''s1'' \<in> set (fst (list_streams one_stream_service))
   \<and> start_stream one_stream_service ''s1'' sample_request create_ok capture_ok
       = (one_stream_service, Inl (HTTPException 400 ''Stream already exists''))"
  using C6_duplicate_id_is_rejected[of "''s1''" one_stream_service sample_request create_ok capture_ok]
  by (simp add: list_streams_def one_stream_service_eval)

text \<open>Scenario C of the specification: stopping the unknown \<^verbatim>\<open>s2\<close>.\<close>

theorem C8_stop_unknown_id_witness:
  "''s2'' \<notin> set (fst (list_streams one_stream_service))
   \<and> stop_stream one_stream_service ''s2'' stop_ok
       = (one_stream_service, Inl (HTTPException 404 ''Stream not found''))
   \<and> list_streams (fst (stop_stream one_stream_service ''s2'' stop_ok)) = ([''s1''], 1)"
  using C8_stop_unknown_id[of "''s2''" one_stream_service stop_ok]
  by (simp add: list_streams_def one_stream_service_eval)


section \<open>Teardown of a stream\<close>

text \<open>What each step of the teardown has done when it returns without raising.\<close>

lemma stop_capture_returns:
  "AudioCapture_stop_capture ac sp cl tm = (ac', Inr ()) \<Longrightarrow>
     \<not> capture_is_active ac' \<and> stream ac' = None \<and> audio_terminated ac'"
  by (auto simp: AudioCapture_stop_capture_def AudioCapture_terminate_def Let_def
           split: option.splits)

lemma sdk_close_returns: "StreamSDK_close k oc = (k', Inr ()) \<Longrightarrow> sdk_closed k'"
  by (auto simp: StreamSDK_close_def split: option.splits)

lemma teardown_returns:
  assumes "stop_stream_teardown d env = (d', Inr ())"
  shows "\<not> active d' \<and> \<not> capture_is_active (audio_capture d') \<and> stream (audio_capture d') = None
         \<and> audio_terminated (audio_capture d') \<and> sdk_closed (sdk d')
         \<and> \<not> rtmp_is_active (rtmp_writer d') \<and> process (rtmp_writer d') = None
         \<and> audio_thread d' = map_option (\<lambda>t. Thread_join t (env_join_ends env)) (audio_thread d)"
proof -
  obtain ac r1 where ac: "AudioCapture_stop_capture (audio_capture d)
        (env_stop_stream env) (env_stream_close env) (env_terminate env) = (ac, r1)"
    by (cases "AudioCapture_stop_capture (audio_capture d)
        (env_stop_stream env) (env_stream_close env) (env_terminate env)")
  obtain k r2 where k: "StreamSDK_close (sdk d) (env_sdk_close env) = (k, r2)"
    by (cases "StreamSDK_close (sdk d) (env_sdk_close env)")
  obtain w r3 where w: "RTMPStreamWriter_close (rtmp_writer d) (env_stdin_close env) (env_wait env) = (w, r3)"
    by (cases "RTMPStreamWriter_close (rtmp_writer d) (env_stdin_close env) (env_wait env)")
  have r1: "r1 = Inr ()" using assms ac
    by (cases r1) (auto simp: stop_stream_teardown_def Let_def)
  have r2: "r2 = Inr ()" using assms ac k r1
    by (cases r2) (auto simp: stop_stream_teardown_def Let_def split: option.splits)
  have r3: "r3 = Inr ()" using assms ac k w r1 r2
    by (auto simp: stop_stream_teardown_def Let_def split: option.splits)
  have d': "d' = d\<lparr>active := False, audio_capture := ac,
                  audio_thread := map_option (\<lambda>t. Thread_join t (env_join_ends env)) (audio_thread d),
                  sdk := k, rtmp_writer := w\<rparr>"
    using assms ac k w r1 r2 r3
    by (auto simp: stop_stream_teardown_def Let_def split: option.splits)
  show ?thesis
    using stop_capture_returns[OF ac[unfolded r1]] sdk_close_returns[OF k[unfolded r2]]
      rtmp_close_returns[OF w[unfolded r3]]
    by (simp add: d')
qed

text \<open>
  Claim C3, as the code has it. When \<^verbatim>\<open>stop_stream\<close> removes a registered id, it
  returned without raising, and the stream dictionary it removed has its active flag
  cleared, its audio capture stopped, its engine closed and its writer closed (inactive,
  no process handle). The worker thread has been joined with the five-second timeout:
  it is no longer running when it ended within the timeout, and it is still running
  when the join timed out on it.
\<close>

theorem C3_entry_removed_after_teardown:
  assumes "map_of (active_streams S) stream_id = Some r"
    and "TalkingHeadRTMPService_stop_stream S stream_id env = (S', res)"
    and "map_of (active_streams S') stream_id = None"
  shows "res = Inr ()
     \<and> \<not> active (stream_dicts S' r)
     \<and> \<not> capture_is_active (audio_capture (stream_dicts S' r))
     \<and> stream (audio_capture (stream_dicts S' r)) = None
     \<and> sdk_closed (sdk (stream_dicts S' r))
     \<and> \<not> rtmp_is_active (rtmp_writer (stream_dicts S' r))
     \<and> process (rtmp_writer (stream_dicts S' r)) = None
     \<and> audio_thread (stream_dicts S' r)
         = map_option (\<lambda>t. Thread_join t (env_join_ends env)) (audio_thread (stream_dicts S r))
     \<and> (\<forall>t. audio_thread (stream_dicts S' r) = Some t \<and> env_join_ends env \<longrightarrow> \<not> thread_alive t)"
proof -
  obtain d rt where t: "stop_stream_teardown (stream_dicts S r) env = (d, rt)"
    by (cases "stop_stream_teardown (stream_dicts S r) env")
  have rt: "rt = Inr ()"
    using assms t by (cases rt) (auto simp: TalkingHeadRTMPService_stop_stream_def)
  have S': "stream_dicts S' r = d" and res: "res = Inr ()"
    using assms(1,2) t rt by (auto simp: TalkingHeadRTMPService_stop_stream_def)
  show ?thesis
    using teardown_returns[OF t[unfolded rt]] S' res
    by (auto simp: Thread_join_def)
qed

text \<open>Stopping \<^verbatim>\<open>s1\<close> when every call returns and the worker ends in time.\<close>

theorem C3_entry_removed_after_teardown_witness:
  "map_of (active_streams one_stream_service) ''s1'' = Some 0
   \<and> (\<exists>S'. TalkingHeadRTMPService_stop_stream one_stream_service ''s1'' stop_ok = (S', Inr ())
          \<and> map_of (active_streams S') ''s1'' = None
          \<and> sdk_closed (sdk (stream_dicts S' 0))
          \<and> process (rtmp_writer (stream_dicts S' 0)) = None
          \<and> audio_thread (stream_dicts S' 0) = Some \<lparr>thread_alive = False\<rparr>)"
proof -
  obtain S' res where s: "TalkingHeadRTMPService_stop_stream one_stream_service ''s1'' stop_ok = (S', res)"
    by (cases "TalkingHeadRTMPService_stop_stream one_stream_service ''s1'' stop_ok")
  have m: "map_of (active_streams one_stream_service) ''s1'' = Some 0"
    by (simp add: one_stream_service_eval)
  have n: "map_of (active_streams S') ''s1'' = None"
    using s
    by (auto simp: TalkingHeadRTMPService_stop_stream_def one_stream_service_eval
          split: prod.splits sum.splits
          simp: stop_stream_teardown_def AudioCapture_stop_capture_def AudioCapture_terminate_def
            StreamSDK_close_def RTMPStreamWriter_close_def RTMPStreamWriter_start_def
            running_capture_def AudioCapture_start_capture_def stop_ok_def Let_def)
  show ?thesis
    using C3_entry_removed_after_teardown[OF m s n] m s n
    by (simp add: one_stream_service_eval Thread_join_def stop_ok_def)
qed

text \<open>
  Against claim C3 as stated: the worker of \<^verbatim>\<open>s1\<close> does not end within the five
  seconds of the join (it is inside a long \<^verbatim>\<open>run_chunk\<close>). \<^verbatim>\<open>stop_stream\<close> goes
  on, returns without raising and has removed the entry, while the worker thread is
  still running.
\<close>

theorem C3_counterexample:
  "map_of (active_streams one_stream_service) ''s1'' = Some 0
   \<and> snd (TalkingHeadRTMPService_stop_stream one_stream_service ''s1'' (stop_ok\<lparr>env_join_ends := False\<rparr>)) = Inr ()
   \<and> map_of (active_streams (fst (TalkingHeadRTMPService_stop_stream one_stream_service ''s1''
         (stop_ok\<lparr>env_join_ends := False\<rparr>)))) ''s1'' = None
   \<and> audio_thread (stream_dicts (fst (TalkingHeadRTMPService_stop_stream one_stream_service ''s1''
         (stop_ok\<lparr>env_join_ends := False\<rparr>))) 0) = Some \<lparr>thread_alive = True\<rparr>"
  by (simp add: TalkingHeadRTMPService_stop_stream_def one_stream_service_eval
        stop_stream_teardown_def AudioCapture_stop_capture_def AudioCapture_terminate_def
        StreamSDK_close_def RTMPStreamWriter_close_def RTMPStreamWriter_start_def
        running_capture_def AudioCapture_start_capture_def stop_ok_def Let_def Thread_join_def)

text \<open>Stopping \<^verbatim>\<open>s1\<close> twice, and closing the one WebSocket session twice.\<close>

theorem C4_second_stop_is_noop_witness:
  "(\<exists>S'. TalkingHeadRTMPService_stop_stream one_stream_service ''s1'' stop_ok = (S', Inr ())
         \<and> TalkingHeadRTMPService_stop_stream S' ''s1'' stop_ok = (S', Inr ()))
   \<and> (\<exists>T'. TalkingHeadStreamingService_close_session one_session_service ''1700000000.5'' None = (T', Inr ())
         \<and> TalkingHeadStreamingService_close_session T' ''1700000000.5'' None = (T', Inr ()))"
proof -
  obtain S' where s: "TalkingHeadRTMPService_stop_stream one_stream_service ''s1'' stop_ok = (S', Inr ())"
    by (simp add: TalkingHeadRTMPService_stop_stream_def one_stream_service_eval
        stop_stream_teardown_def AudioCapture_stop_capture_def AudioCapture_terminate_def
        StreamSDK_close_def RTMPStreamWriter_close_def RTMPStreamWriter_start_def
        running_capture_def AudioCapture_start_capture_def stop_ok_def Let_def)
  obtain T' where t: "TalkingHeadStreamingService_close_session one_session_service ''1700000000.5'' None = (T', Inr ())"
    by (simp add: TalkingHeadStreamingService_close_session_def one_session_service_eval
        close_session_teardown_def StreamSDK_close_def writer_close_cases Let_def
        full_def StreamingVideoWriter_init_def new_queue_def)
  show ?thesis
    using C4_second_stop_is_noop[of one_stream_service "''s1''" stop_ok S' stop_ok
        one_session_service "''1700000000.5''" None T' None] s t
    by simp
qed


section \<open>A capture device that cannot be opened\<close>

text \<open>\<^verbatim>\<open>start_capture\<close> handles every \<^verbatim>\<open>Exception\<close> of \<^verbatim>\<open>audio.open\<close>.\<close>

lemma start_capture_open_fails:
  "is_Exception (exn_cls e) \<Longrightarrow> AudioCapture_start_capture ac (Some e) st = (ac, Inr ())"
  by (simp add: AudioCapture_start_capture_def capture_except_Exception_def)

text \<open>
  Claim C5, as the code has it. When \<^verbatim>\<open>audio.open\<close> raises an \<^verbatim>\<open>Exception\<close>,
  \<^verbatim>\<open>start_capture\<close> returns without raising and leaves the capture object as it was
  (inactive, no stream). The route \<^verbatim>\<open>start_stream\<close> for a new id, with every other
  collaborator call returning, does not abort: it returns its success message, the id
  is registered, the stream is marked active and its worker thread runs, on a capture
  that is inactive.
\<close>

theorem C5_device_failure_is_swallowed:
  assumes "is_Exception (exn_cls e)" and "env_open denv = Some e"
    and "stream_id \<notin> set (fst (list_streams S))"
  shows "AudioCapture_start_capture ac (Some e) st = (ac, Inr ())
     \<and> (\<exists>S'. start_stream S stream_id request create_ok denv =
               (S', Inr \<lparr>message = ''Stream '' @ stream_id @ '' started successfully'',
                         response_rtmp_url = request_rtmp_url request\<rparr>)
           \<and> stream_id \<in> set (fst (list_streams S'))
           \<and> (\<exists>r. map_of (active_streams S') stream_id = Some r
                  \<and> active (stream_dicts S' r)
                  \<and> audio_thread (stream_dicts S' r) = Some \<lparr>thread_alive = True\<rparr>
                  \<and> \<not> capture_is_active (audio_capture (stream_dicts S' r))
                  \<and> stream (audio_capture (stream_dicts S' r)) = None))"
proof -
  have n: "map_of (active_streams S) stream_id = None"
    using assms(3) by (simp add: in_keys_iff)
  let ?d = "\<lparr>sdk = \<lparr>sdk_cfg_pkl = cfg_pkl S, sdk_data_root = data_root S,
                 sdk_setup_args = Some (source_path request, ''/dev/null'', service_setup_kwargs),
                 sdk_closed = False\<rparr>,
            rtmp_writer = fst (RTMPStreamWriter_start (RTMPStreamWriter_default (request_rtmp_url request)) None),
            audio_capture = AudioCapture_init 16000 1024,
            active = True, audio_thread = None\<rparr>"
  let ?S1 = "S\<lparr>active_streams := AList.update stream_id (allocated S) (active_streams S),
               stream_dicts := (stream_dicts S)(allocated S := ?d),
               allocated := Suc (allocated S)\<rparr>"
  have c: "TalkingHeadRTMPService_create_stream S stream_id (source_path request)
             (request_rtmp_url request) create_ok = (?S1, Inr (sdk ?d, audio_capture ?d))"
    by (simp add: TalkingHeadRTMPService_create_stream_def create_ok_def StreamSDK_init_def
          StreamSDK_setup_def RTMPStreamWriter_start_def AudioCapture_default_def Let_def)
  let ?S2 = "?S1\<lparr>stream_dicts := (stream_dicts ?S1)
               (allocated S := ?d\<lparr>audio_thread := Some \<lparr>thread_alive = True\<rparr>\<rparr>)\<rparr>"
  have p: "TalkingHeadRTMPService_start_stream_processing ?S1 stream_id denv = (?S2, Inr ())"
    using assms(1,2)
    by (simp add: TalkingHeadRTMPService_start_stream_processing_def update_conv'
          start_capture_open_fails Let_def)
  have r: "start_stream S stream_id request create_ok denv =
             (?S2, Inr \<lparr>message = ''Stream '' @ stream_id @ '' started successfully'',
                        response_rtmp_url = request_rtmp_url request\<rparr>)"
    using n by (simp add: start_stream_def c p del: One_nat_def)
  have k: "stream_id \<in> set (fst (list_streams ?S2))"
    by (simp add: in_keys_iff update_conv')
  have m: "map_of (active_streams ?S2) stream_id = Some (allocated S)"
    by (simp add: update_conv')
  have q: "active (stream_dicts ?S2 (allocated S))
      \<and> audio_thread (stream_dicts ?S2 (allocated S)) = Some \<lparr>thread_alive = True\<rparr>
      \<and> \<not> capture_is_active (audio_capture (stream_dicts ?S2 (allocated S)))
      \<and> stream (audio_capture (stream_dicts ?S2 (allocated S))) = None"
    by (simp add: AudioCapture_init_def)
  show ?thesis
    using start_capture_open_fails[OF assms(1)] r k m q by blast
qed

text \<open>Starting \<^verbatim>\<open>s1\<close> on a machine without an input device.\<close>

theorem C5_device_failure_is_swallowed_witness:
  "\<exists>S'. start_stream (init_service ''cfg.pkl'' ''/data'') ''s1'' sample_request create_ok
           (capture_ok\<lparr>env_open := Some (PyExn OSError ''Invalid input device'')\<rparr>)
         = (S', Inr \<lparr>message = ''Stream s1 started successfully'', response_rtmp_url = ''rtmp://host/live''\<rparr>)
       \<and> fst (list_streams S') = [''s1'']
       \<and> active (stream_dicts S' 0)
       \<and> audio_thread (stream_dicts S' 0) = Some \<lparr>thread_alive = True\<rparr>
       \<and> \<not> capture_is_active (audio_capture (stream_dicts S' 0))"
proof -
  from C5_device_failure_is_swallowed[of "PyExn OSError ''Invalid input device''"
      "capture_ok\<lparr>env_open := Some (PyExn OSError ''Invalid input device'')\<rparr>"
      "''s1''" "init_service ''cfg.pkl'' ''/data''" "AudioCapture_init 16000 1024" None sample_request]
  obtain S' r where
    a: "start_stream (init_service ''cfg.pkl'' ''/data'') ''s1'' sample_request create_ok
           (capture_ok\<lparr>env_open := Some (PyExn OSError ''Invalid input device'')\<rparr>)
         = (S', Inr \<lparr>message = ''Stream s1 started successfully'', response_rtmp_url = ''rtmp://host/live''\<rparr>)"
    and b: "map_of (active_streams S') ''s1'' = Some r" "active (stream_dicts S' r)"
      "audio_thread (stream_dicts S' r) = Some \<lparr>thread_alive = True\<rparr>"
      "\<not> capture_is_active (audio_capture (stream_dicts S' r))"
    by (auto simp: list_streams_def init_service_def sample_request_def)
  have s: "active_streams S' = [(''s1'', 0)]"
    using a
    by (auto simp: start_stream_def init_service_def sample_request_def
        create_ok_def capture_ok_def TalkingHeadRTMPService_create_stream_def
        TalkingHeadRTMPService_start_stream_processing_def StreamSDK_init_def StreamSDK_setup_def
        RTMPStreamWriter_start_def AudioCapture_default_def AudioCapture_start_capture_def
        capture_except_Exception_def Let_def)
  then have "r = 0" using b(1) by simp
  then show ?thesis using a b s by (simp add: list_streams_def)
qed

text \<open>
  Against claim C5 as stated: the device cannot be opened, yet \<^verbatim>\<open>start_capture\<close>
  returns normally, the route reports success, and \<^verbatim>\<open>s1\<close> is registered with its
  worker running.
\<close>

theorem C5_counterexample:
  "snd (AudioCapture_start_capture (AudioCapture_init 16000 1024)
          (Some (PyExn OSError ''Invalid input device'')) None) = Inr ()
   \<and> snd (start_stream (init_service ''cfg.pkl'' ''/data'') ''s1'' sample_request create_ok
           (capture_ok\<lparr>env_open := Some (PyExn OSError ''Invalid input device'')\<rparr>))
       = Inr \<lparr>message = ''Stream s1 started successfully'', response_rtmp_url = ''rtmp://host/live''\<rparr>
   \<and> list_streams (fst (start_stream (init_service ''cfg.pkl'' ''/data'') ''s1'' sample_request create_ok
           (capture_ok\<lparr>env_open := Some (PyExn OSError ''Invalid input device'')\<rparr>))) = ([''s1''], 1)
   \<and> audio_thread (stream_dicts (fst (start_stream (init_service ''cfg.pkl'' ''/data'') ''s1'' sample_request create_ok
           (capture_ok\<lparr>env_open := Some (PyExn OSError ''Invalid input device'')\<rparr>))) 0)
       = Some \<lparr>thread_alive = True\<rparr>"
  by (simp add: start_stream_def init_service_def sample_request_def list_streams_def
        create_ok_def capture_ok_def TalkingHeadRTMPService_create_stream_def
        TalkingHeadRTMPService_start_stream_processing_def StreamSDK_init_def StreamSDK_setup_def
        RTMPStreamWriter_start_def AudioCapture_default_def AudioCapture_start_capture_def
        capture_except_Exception_def Let_def)

end
